theory Spec2Isabelle
  imports Main "HOL-Library.Word" "HOL-Library.Sublist"
begin

section \<open>Speech services: STT and TTS with automatic fallbacks\<close>

text \<open>
  A shallow embedding of \<^verbatim>\<open>app/services/elevenlabs.py\<close>. The module has two entry
  points, \<^verbatim>\<open>transcribe_audio\<close> and \<^verbatim>\<open>text_to_speech\<close>, four provider functions and one
  module-level flag, \<^verbatim>\<open>_elevenlabs_blocked\<close>. The flag is threaded through every
  function as explicit state; next to it the state carries the trace of outbound
  provider calls, so that "is never called" is a statement about that trace. What the
  vendors answer is not code of the module: it is a parameter (\<open>world\<close>). Exceptions
  that leave a function are values \<open>Inl e\<close>. Logging is not modelled, except that the
  arguments of a log call are evaluated (\<^verbatim>\<open>len(transcript)\<close> can raise).
\<close>

subsection \<open>Python values\<close>

type_synonym bytes = "8 word list"

text \<open>
  What \<^verbatim>\<open>resp.json()\<close> returns: a Python value built from JSON. A dict is the list
  of its items. \<open>JNum\<close> stands for any number: the module only tests a number for
  being zero.
\<close>

datatype json =
    JNull
  | JBool bool
  | JNum int
  | JStr string
  | JArr "json list"
  | JObj "(string \<times> json) list"

datatype exn = JSONDecodeError | AttributeError | TypeError

text \<open>Truth value testing, as \<^verbatim>\<open>if transcript:\<close> does it.\<close>

fun truthy :: "json \<Rightarrow> bool" where
  "truthy JNull = False"
| "truthy (JBool b) = b"
| "truthy (JNum n) = (n \<noteq> 0)"
| "truthy (JStr s) = (s \<noteq> [])"
| "truthy (JArr xs) = (xs \<noteq> [])"
| "truthy (JObj kvs) = (kvs \<noteq> [])"

text \<open>\<^verbatim>\<open>len(v)\<close>: defined on strings, lists and dicts, a TypeError elsewhere.\<close>

fun py_len :: "json \<Rightarrow> exn + nat" where
  "py_len (JStr s) = Inr (length s)"
| "py_len (JArr xs) = Inr (length xs)"
| "py_len (JObj kvs) = Inr (length kvs)"
| "py_len v = Inl TypeError"

text \<open>\<^verbatim>\<open>v.get(key, default)\<close>: only a dict has the method.\<close>

fun py_get :: "json \<Rightarrow> string \<Rightarrow> json \<Rightarrow> exn + json" where
  "py_get (JObj kvs) k d = Inr (case map_of kvs k of Some v \<Rightarrow> v | None \<Rightarrow> d)"
| "py_get v k d = Inl AttributeError"

text \<open>A configuration value is a string or None; it is tested for truth.\<close>

fun configured :: "string option \<Rightarrow> bool" where
  "configured None = False"
| "configured (Some v) = (v \<noteq> [])"

text \<open>\<^verbatim>\<open>needle in haystack\<close> on strings.\<close>

fun str_contains :: "string \<Rightarrow> string \<Rightarrow> bool" where
  "str_contains needle [] = (needle = [])"
| "str_contains needle (c # cs) = (prefix needle (c # cs) \<or> str_contains needle cs)"

text \<open>
  \<^verbatim>\<open>s.rsplit(sep, 1)\<close> for a one-character separator: the string is cut at the last
  separator, or returned whole when it has none.
\<close>

definition rsplit1 :: "char \<Rightarrow> string \<Rightarrow> string list" where
  "rsplit1 sep s =
     (if sep \<in> set s
      then [rev (drop 1 (dropWhile (\<lambda>c. c \<noteq> sep) (rev s))),
            rev (takeWhile (\<lambda>c. c \<noteq> sep) (rev s))]
      else [s])"

text \<open>
  \<^verbatim>\<open>s.lower()\<close> on the ASCII letters. A character outside ASCII is left as it is:
  no such character lowers to a letter that occurs in a key of the MIME table.
\<close>

definition lower_char :: "char \<Rightarrow> char" where
  "lower_char c =
     (case map_of (zip ''ABCDEFGHIJKLMNOPQRSTUVWXYZ'' ''abcdefghijklmnopqrstuvwxyz'') c of
        Some l \<Rightarrow> l
      | None \<Rightarrow> c)"

definition lower :: "string \<Rightarrow> string" where
  "lower s = map lower_char s"

subsection \<open>The HTTP client and the synthesis stream\<close>

text \<open>
  The response object, by the attributes the module reads: \<^verbatim>\<open>status_code\<close>,
  \<^verbatim>\<open>text\<close>, \<^verbatim>\<open>content\<close> and \<^verbatim>\<open>json()\<close>, which is \<open>None\<close> when the body does not
  decode (the call raises \<^verbatim>\<open>json.JSONDecodeError\<close>, a \<^verbatim>\<open>ValueError\<close>).
\<close>

record response =
  status_code :: nat
  resp_text :: string
  resp_content :: bytes
  resp_json :: "json option"

text \<open>\<^verbatim>\<open>client.post\<close> returns a response or raises \<^verbatim>\<open>httpx.RequestError\<close>
  (connection failure, timeout).\<close>

datatype post_outcome = Response response | RequestError

text \<open>\<^verbatim>\<open>resp.raise_for_status()\<close> raises \<^verbatim>\<open>httpx.HTTPStatusError\<close> unless the
  status is 2xx.\<close>

definition is_success :: "response \<Rightarrow> bool" where
  "is_success resp = (200 \<le> status_code resp \<and> status_code resp \<le> 299)"

text \<open>A chunk of the Edge-TTS stream: its \<^verbatim>\<open>"type"\<close> and its \<^verbatim>\<open>"data"\<close>.\<close>

record chunk =
  chunk_type :: string
  chunk_data :: bytes

text \<open>The stream yields its chunks and ends, or raises after some of them.\<close>

datatype stream_outcome = Completed "chunk list" | Failed "chunk list"

text \<open>What the vendors answer to each request; the requests carry what the module sends.\<close>

record world =
  post_elevenlabs_stt :: "string \<Rightarrow> bytes \<Rightarrow> string \<Rightarrow> post_outcome"
  post_groq_stt :: "string \<Rightarrow> bytes \<Rightarrow> string \<Rightarrow> post_outcome"
  post_elevenlabs_tts :: "string \<Rightarrow> post_outcome"
  edge_stream :: "string \<Rightarrow> stream_outcome"

datatype call =
    ElevenLabsSTT string bytes string
  | GroqSTT string bytes string
  | ElevenLabsTTS string
  | EdgeTTS string

subsection \<open>Configuration and module state\<close>

text \<open>The constants imported from \<^verbatim>\<open>app.config\<close> that decide the control flow.\<close>

record config =
  ELEVENLABS_API_KEY :: "string option"
  ELEVENLABS_VOICE_ID :: "string option"
  GROQ_API_KEY :: "string option"

record state =
  elevenlabs_blocked :: bool
  calls :: "call list"

text \<open>The module as loaded: \<^verbatim>\<open>_elevenlabs_blocked = False\<close>, nothing called yet.\<close>

definition initial_state :: state where
  "initial_state = \<lparr>elevenlabs_blocked = False, calls = []\<rparr>"

definition called :: "call \<Rightarrow> state \<Rightarrow> state" where
  "called c s = s\<lparr>calls := calls s @ [c]\<rparr>"

subsection \<open>The providers\<close>

text \<open>The table is written out twice in the source, the same in both STT functions.\<close>

definition mime_map :: "(string \<times> string) list" where
  "mime_map =
     [(''wav'', ''audio/wav''), (''mp3'', ''audio/mpeg''), (''webm'', ''audio/webm''),
      (''ogg'', ''audio/ogg''), (''oga'', ''audio/ogg''), (''opus'', ''audio/ogg''),
      (''m4a'', ''audio/mp4''), (''flac'', ''audio/flac'')]"

text \<open>\<^verbatim>\<open>mime_map.get(ext, "audio/ogg")\<close>\<close>

definition mime_map_get :: "string \<Rightarrow> string \<Rightarrow> string" where
  "mime_map_get ext d = (case map_of mime_map ext of Some m \<Rightarrow> m | None \<Rightarrow> d)"

definition elevenlabs_stt ::
  "config \<Rightarrow> world \<Rightarrow> bytes \<Rightarrow> string \<Rightarrow> state \<Rightarrow> (exn + json option) \<times> state" where
  "elevenlabs_stt cfg w audio_bytes filename s =
     (let ext = (if CHR ''.'' \<in> set filename then lower (last (rsplit1 CHR ''.'' filename))
                 else ''wav'');
          mime_type = mime_map_get ext ''audio/ogg'';
          s1 = called (ElevenLabsSTT filename audio_bytes mime_type) s
      in case post_elevenlabs_stt w filename audio_bytes mime_type of
           RequestError \<Rightarrow> (Inr None, s1)
         | Response resp \<Rightarrow>
             if is_success resp then
               (case resp_json resp of
                  None \<Rightarrow> (Inl JSONDecodeError, s1)
                | Some j \<Rightarrow>
                    (case py_get j ''text'' (JStr []) of
                       Inl e \<Rightarrow> (Inl e, s1)
                     | Inr transcript \<Rightarrow>
                         if truthy transcript then
                           (case py_len transcript of
                              Inl e \<Rightarrow> (Inl e, s1)
                            | Inr n \<Rightarrow> (Inr (Some transcript), s1))
                         else (Inr None, s1)))
             else
               (let body = resp_text resp
                in if str_contains ''unusual_activity'' body \<or> status_code resp = 401
                   then (Inr None, s1\<lparr>elevenlabs_blocked := True\<rparr>)
                   else (Inr None, s1)))"

definition groq_whisper_stt ::
  "config \<Rightarrow> world \<Rightarrow> bytes \<Rightarrow> string \<Rightarrow> state \<Rightarrow> (exn + json option) \<times> state" where
  "groq_whisper_stt cfg w audio_bytes filename s =
     (let ext = (if CHR ''.'' \<in> set filename then lower (last (rsplit1 CHR ''.'' filename))
                 else ''wav'');
          mime_type = mime_map_get ext ''audio/ogg'';
          s1 = called (GroqSTT filename audio_bytes mime_type) s
      in case post_groq_stt w filename audio_bytes mime_type of
           RequestError \<Rightarrow> (Inr None, s1)
         | Response resp \<Rightarrow>
             if is_success resp then
               (case resp_json resp of
                  None \<Rightarrow> (Inl JSONDecodeError, s1)
                | Some result \<Rightarrow>
                    (case py_get result ''text'' (JStr []) of
                       Inl e \<Rightarrow> (Inl e, s1)
                     | Inr transcript \<Rightarrow>
                         if truthy transcript then
                           (case py_len transcript of
                              Inl e \<Rightarrow> (Inl e, s1)
                            | Inr n \<Rightarrow> (Inr (Some transcript), s1))
                         else (Inr None, s1)))
             else (Inr None, s1))"

definition elevenlabs_tts ::
  "config \<Rightarrow> world \<Rightarrow> string \<Rightarrow> state \<Rightarrow> (exn + bytes option) \<times> state" where
  "elevenlabs_tts cfg w txt s =
     (let s1 = called (ElevenLabsTTS txt) s
      in case post_elevenlabs_tts w txt of
           RequestError \<Rightarrow> (Inr None, s1)
         | Response resp \<Rightarrow>
             if is_success resp then
               (let audio_bytes = resp_content resp in (Inr (Some audio_bytes), s1))
             else
               (let body = resp_text resp
                in if str_contains ''unusual_activity'' body \<or> status_code resp = 401
                   then (Inr None, s1\<lparr>elevenlabs_blocked := True\<rparr>)
                   else (Inr None, s1)))"

text \<open>The loop over the stream: the data of the chunks whose type is \<^verbatim>\<open>"audio"\<close>
  is written to the buffer, in order.\<close>

fun write_audio :: "chunk list \<Rightarrow> bytes \<Rightarrow> bytes" where
  "write_audio [] buffer = buffer"
| "write_audio (c # cs) buffer =
     (if chunk_type c = ''audio'' then write_audio cs (buffer @ chunk_data c)
      else write_audio cs buffer)"

definition edge_tts ::
  "world \<Rightarrow> string \<Rightarrow> state \<Rightarrow> (exn + bytes option) \<times> state" where
  "edge_tts w txt s =
     (let s1 = called (EdgeTTS txt) s
      in case edge_stream w txt of
           Failed cs \<Rightarrow> (Inr None, s1)
         | Completed cs \<Rightarrow>
             (let audio_bytes = write_audio cs []
              in if audio_bytes \<noteq> [] then (Inr (Some audio_bytes), s1)
                 else (Inr None, s1)))"

subsection \<open>The entry points\<close>

definition transcribe_audio ::
  "config \<Rightarrow> world \<Rightarrow> bytes \<Rightarrow> string \<Rightarrow> state \<Rightarrow> (exn + json option) \<times> state" where
  "transcribe_audio cfg w audio_bytes filename s =
     (case (if configured (ELEVENLABS_API_KEY cfg) \<and> \<not> elevenlabs_blocked s
            then elevenlabs_stt cfg w audio_bytes filename s
            else (Inr None, s)) of
        (Inl e, s1) \<Rightarrow> (Inl e, s1)
      | (Inr (Some result), s1) \<Rightarrow> (Inr (Some result), s1)
      | (Inr None, s1) \<Rightarrow>
          if configured (GROQ_API_KEY cfg) then
            (case groq_whisper_stt cfg w audio_bytes filename s1 of
               (Inl e, s2) \<Rightarrow> (Inl e, s2)
             | (Inr (Some result), s2) \<Rightarrow> (Inr (Some result), s2)
             | (Inr None, s2) \<Rightarrow> (Inr None, s2))
          else (Inr None, s1))"

definition text_to_speech ::
  "config \<Rightarrow> world \<Rightarrow> string \<Rightarrow> state \<Rightarrow> (exn + bytes option) \<times> state" where
  "text_to_speech cfg w txt s =
     (case (if \<not> elevenlabs_blocked s \<and> configured (ELEVENLABS_API_KEY cfg)
               \<and> configured (ELEVENLABS_VOICE_ID cfg)
            then elevenlabs_tts cfg w txt s
            else (Inr None, s)) of
        (Inl e, s1) \<Rightarrow> (Inl e, s1)
      | (Inr (Some result), s1) \<Rightarrow> (Inr (Some result), s1)
      | (Inr None, s1) \<Rightarrow>
          (case edge_tts w txt s1 of
             (Inl e, s2) \<Rightarrow> (Inl e, s2)
           | (Inr (Some result), s2) \<Rightarrow> (Inr (Some result), s2)
           | (Inr None, s2) \<Rightarrow> (Inr None, s2)))"

subsection \<open>A process: a sequence of calls of the entry points\<close>

text \<open>
  The configuration is fixed when the module is loaded; what the vendors answer may
  differ from call to call. The flag and the trace survive a call that raises.
\<close>

datatype request = Transcribe world bytes string | Speak world string

fun serve :: "config \<Rightarrow> request \<Rightarrow> state \<Rightarrow> state" where
  "serve cfg (Transcribe w audio_bytes filename) s =
     snd (transcribe_audio cfg w audio_bytes filename s)"
| "serve cfg (Speak w txt) s = snd (text_to_speech cfg w txt s)"

fun serve_all :: "config \<Rightarrow> request list \<Rightarrow> state \<Rightarrow> state" where
  "serve_all cfg [] s = s"
| "serve_all cfg (r # rs) s = serve_all cfg rs (serve cfg r s)"

subsection \<open>Names used in the statements\<close>

text \<open>The MIME type computed at the head of both STT functions (lines 149-155 and
  190-196 of the source), as one expression.\<close>

definition stt_mime_type :: "string \<Rightarrow> string" where
  "stt_mime_type filename =
     mime_map_get
       (if CHR ''.'' \<in> set filename then lower (last (rsplit1 CHR ''.'' filename)) else ''wav'')
       ''audio/ogg''"

text \<open>
  The classification made in the \<^verbatim>\<open>except httpx.HTTPStatusError\<close> branch of both
  ElevenLabs functions. The branch is reached for a response whose status is an error
  status; there the response is blocking when its body contains the marker
  \<^verbatim>\<open>unusual_activity\<close> or its status is 401.
\<close>

definition blocking_response :: "post_outcome \<Rightarrow> bool" where
  "blocking_response out =
     (case out of
        RequestError \<Rightarrow> False
      | Response resp \<Rightarrow>
          \<not> is_success resp
          \<and> (str_contains ''unusual_activity'' (resp_text resp) \<or> status_code resp = 401))"

text \<open>A failure of the primary that is not blocking: any other error status without the
  marker, or a transport error (\<^verbatim>\<open>httpx.RequestError\<close>, timeouts included).\<close>

definition transient_failure :: "post_outcome \<Rightarrow> bool" where
  "transient_failure out =
     (case out of
        RequestError \<Rightarrow> True
      | Response resp \<Rightarrow>
          \<not> is_success resp \<and> status_code resp \<noteq> 401
          \<and> \<not> str_contains ''unusual_activity'' (resp_text resp))"

text \<open>The outbound calls made between two states.\<close>

definition new_calls :: "state \<Rightarrow> state \<Rightarrow> call list" where
  "new_calls s s' = drop (length (calls s)) (calls s')"

text \<open>The call of the primary vendor that a request can lead to, and the vendor's answer
  to it.\<close>

fun primary_call :: "request \<Rightarrow> call" where
  "primary_call (Transcribe w audio_bytes filename) =
     ElevenLabsSTT filename audio_bytes (stt_mime_type filename)"
| "primary_call (Speak w txt) = ElevenLabsTTS txt"

fun primary_answer :: "request \<Rightarrow> post_outcome" where
  "primary_answer (Transcribe w audio_bytes filename) =
     post_elevenlabs_stt w filename audio_bytes (stt_mime_type filename)"
| "primary_answer (Speak w txt) = post_elevenlabs_tts w txt"

text \<open>Scenarios for the concrete instances: a world in which every vendor gives one
  fixed answer, some answers and chunks, two configurations (in \<open>no_keys\<close> the Groq key
  is the empty string), and two worlds.\<close>

definition answers :: "post_outcome \<Rightarrow> post_outcome \<Rightarrow> post_outcome \<Rightarrow> stream_outcome \<Rightarrow> world" where
  "answers el_stt groq el_tts edge =
     \<lparr>post_elevenlabs_stt = (\<lambda>filename audio_bytes mime_type. el_stt),
      post_groq_stt = (\<lambda>filename audio_bytes mime_type. groq),
      post_elevenlabs_tts = (\<lambda>txt. el_tts),
      edge_stream = (\<lambda>txt. edge)\<rparr>"

definition ok_json :: "json \<Rightarrow> post_outcome" where
  "ok_json j = Response \<lparr>status_code = 200, resp_text = [], resp_content = [], resp_json = Some j\<rparr>"

definition http_error :: "nat \<Rightarrow> string \<Rightarrow> post_outcome" where
  "http_error code body =
     Response \<lparr>status_code = code, resp_text = body, resp_content = [], resp_json = None\<rparr>"

definition all_keys :: config where
  "all_keys = \<lparr>ELEVENLABS_API_KEY = Some ''xi'', ELEVENLABS_VOICE_ID = Some ''voice'',
               GROQ_API_KEY = Some ''gsk''\<rparr>"

definition no_keys :: config where
  "no_keys = \<lparr>ELEVENLABS_API_KEY = None, ELEVENLABS_VOICE_ID = None, GROQ_API_KEY = Some []\<rparr>"

definition ok_audio :: "bytes \<Rightarrow> post_outcome" where
  "ok_audio b = Response \<lparr>status_code = 200, resp_text = [], resp_content = b, resp_json = None\<rparr>"

definition audio_chunk :: "bytes \<Rightarrow> chunk" where
  "audio_chunk b = \<lparr>chunk_type = ''audio'', chunk_data = b\<rparr>"

definition boundary_chunk :: chunk where
  "boundary_chunk = \<lparr>chunk_type = ''WordBoundary'', chunk_data = [7]\<rparr>"

definition healthy :: world where
  "healthy =
     answers (ok_json (JObj [(''text'', JStr ''from elevenlabs'')]))
       (ok_json (JObj [(''text'', JStr ''from groq'')])) (ok_audio [5])
       (Completed [audio_chunk [1, 2]])"

definition unauthorized :: world where
  "unauthorized =
     answers (http_error 401 ''Unauthorized'')
       (ok_json (JObj [(''text'', JStr ''from groq'')])) (http_error 401 ''Unauthorized'')
       (Completed [audio_chunk [1, 2]])"

text \<open>A response with status 200 whose body is an HTML page, not JSON.\<close>

definition html_body :: post_outcome where
  "html_body =
     Response \<lparr>status_code = 200, resp_text = ''<html>Bad Gateway</html>'', resp_content = [],
               resp_json = None\<rparr>"

text \<open>Answers with status 200 whose body contains the marker: a JSON body with an empty
  transcript, and an audio body; and a world in which ElevenLabs gives them.\<close>

definition marker_ok_response :: response where
  \<open>marker_ok_response =
     \<lparr>status_code = 200,
      resp_text = ''{"text": "", "detail": "unusual_activity"}'',
      resp_content = [],
      resp_json = Some (JObj [(''text'', JStr []), (''detail'', JStr ''unusual_activity'')])\<rparr>\<close>

definition marker_audio_response :: response where
  "marker_audio_response =
     \<lparr>status_code = 200,
      resp_text = ''unusual_activity'',
      resp_content = [117, 110, 117, 115, 117, 97, 108, 95, 97, 99, 116, 105, 118, 105, 116, 121],
      resp_json = None\<rparr>"

definition marker_in_success :: world where
  "marker_in_success =
     answers (Response marker_ok_response)
       (ok_json (JObj [(''text'', JStr ''from groq'')])) (Response marker_audio_response)
       (Completed [audio_chunk [1, 2]])"

section \<open>Properties\<close>

subsection \<open>Auxiliary facts\<close>

lemma last_rsplit1_dot:
  assumes "CHR ''.'' \<notin> set e"
  shows "last (rsplit1 CHR ''.'' (stem @ ''.'' @ e)) = e"
proof -
  have "takeWhile (\<lambda>c. c \<noteq> CHR ''.'') (rev e @ CHR ''.'' # rev stem) = rev e"
    using assms by (subst takeWhile_append2) auto
  then show ?thesis by (simp add: rsplit1_def)
qed

lemma stt_mime_type_dotted:
  "CHR ''.'' \<notin> set e \<Longrightarrow> stt_mime_type (stem @ ''.'' @ e) = mime_map_get (lower e) ''audio/ogg''"
  using last_rsplit1_dot [of e stem] by (simp add: stt_mime_type_def)

lemma stt_mime_type_undotted:
  "CHR ''.'' \<notin> set filename \<Longrightarrow> stt_mime_type filename = ''audio/wav''"
  by (simp add: stt_mime_type_def mime_map_get_def mime_map_def)

lemma mime_map_get_table:
  "mime_map_get x ''audio/ogg'' =
     (if x = ''wav'' then ''audio/wav''
      else if x = ''mp3'' then ''audio/mpeg''
      else if x = ''webm'' then ''audio/webm''
      else if x = ''ogg'' \<or> x = ''oga'' \<or> x = ''opus'' then ''audio/ogg''
      else if x = ''m4a'' then ''audio/mp4''
      else if x = ''flac'' then ''audio/flac''
      else ''audio/ogg'')"
  by (simp add: mime_map_get_def mime_map_def)

lemma elevenlabs_stt_unfold:
  "elevenlabs_stt cfg w audio_bytes filename s =
     (case post_elevenlabs_stt w filename audio_bytes (stt_mime_type filename) of
        RequestError \<Rightarrow>
          (Inr None, called (ElevenLabsSTT filename audio_bytes (stt_mime_type filename)) s)
      | Response resp \<Rightarrow>
          if is_success resp then
            (case resp_json resp of
               None \<Rightarrow>
                 (Inl JSONDecodeError,
                  called (ElevenLabsSTT filename audio_bytes (stt_mime_type filename)) s)
             | Some j \<Rightarrow>
                 (case py_get j ''text'' (JStr []) of
                    Inl e \<Rightarrow>
                      (Inl e, called (ElevenLabsSTT filename audio_bytes (stt_mime_type filename)) s)
                  | Inr transcript \<Rightarrow>
                      if truthy transcript then
                        (case py_len transcript of
                           Inl e \<Rightarrow>
                             (Inl e,
                              called (ElevenLabsSTT filename audio_bytes (stt_mime_type filename)) s)
                         | Inr n \<Rightarrow>
                             (Inr (Some transcript),
                              called (ElevenLabsSTT filename audio_bytes (stt_mime_type filename)) s))
                      else
                        (Inr None,
                         called (ElevenLabsSTT filename audio_bytes (stt_mime_type filename)) s)))
          else if str_contains ''unusual_activity'' (resp_text resp) \<or> status_code resp = 401
          then (Inr None,
                (called (ElevenLabsSTT filename audio_bytes (stt_mime_type filename)) s)
                  \<lparr>elevenlabs_blocked := True\<rparr>)
          else (Inr None,
                called (ElevenLabsSTT filename audio_bytes (stt_mime_type filename)) s))"
  unfolding elevenlabs_stt_def stt_mime_type_def Let_def ..

lemma groq_whisper_stt_unfold:
  "groq_whisper_stt cfg w audio_bytes filename s =
     (case post_groq_stt w filename audio_bytes (stt_mime_type filename) of
        RequestError \<Rightarrow>
          (Inr None, called (GroqSTT filename audio_bytes (stt_mime_type filename)) s)
      | Response resp \<Rightarrow>
          if is_success resp then
            (case resp_json resp of
               None \<Rightarrow>
                 (Inl JSONDecodeError,
                  called (GroqSTT filename audio_bytes (stt_mime_type filename)) s)
             | Some result \<Rightarrow>
                 (case py_get result ''text'' (JStr []) of
                    Inl e \<Rightarrow>
                      (Inl e, called (GroqSTT filename audio_bytes (stt_mime_type filename)) s)
                  | Inr transcript \<Rightarrow>
                      if truthy transcript then
                        (case py_len transcript of
                           Inl e \<Rightarrow>
                             (Inl e,
                              called (GroqSTT filename audio_bytes (stt_mime_type filename)) s)
                         | Inr n \<Rightarrow>
                             (Inr (Some transcript),
                              called (GroqSTT filename audio_bytes (stt_mime_type filename)) s))
                      else
                        (Inr None,
                         called (GroqSTT filename audio_bytes (stt_mime_type filename)) s)))
          else (Inr None, called (GroqSTT filename audio_bytes (stt_mime_type filename)) s))"
  unfolding groq_whisper_stt_def stt_mime_type_def Let_def ..

lemma elevenlabs_stt_calls:
  "calls (snd (elevenlabs_stt cfg w audio_bytes filename s)) =
     calls s @ [ElevenLabsSTT filename audio_bytes (stt_mime_type filename)]"
  unfolding elevenlabs_stt_unfold
  by (simp add: called_def split: post_outcome.splits option.splits sum.splits)

lemma groq_whisper_stt_calls:
  "calls (snd (groq_whisper_stt cfg w audio_bytes filename s)) =
     calls s @ [GroqSTT filename audio_bytes (stt_mime_type filename)]"
  unfolding groq_whisper_stt_unfold
  by (simp add: called_def split: post_outcome.splits option.splits sum.splits)

lemma elevenlabs_stt_blocking:
  "blocking_response (post_elevenlabs_stt w filename audio_bytes (stt_mime_type filename)) \<Longrightarrow>
   elevenlabs_stt cfg w audio_bytes filename s =
     (Inr None, (called (ElevenLabsSTT filename audio_bytes (stt_mime_type filename)) s)
                  \<lparr>elevenlabs_blocked := True\<rparr>)"
  by (cases "post_elevenlabs_stt w filename audio_bytes (stt_mime_type filename)")
    (simp_all add: elevenlabs_stt_unfold blocking_response_def)

lemma elevenlabs_stt_transient:
  "transient_failure (post_elevenlabs_stt w filename audio_bytes (stt_mime_type filename)) \<Longrightarrow>
   elevenlabs_stt cfg w audio_bytes filename s =
     (Inr None, called (ElevenLabsSTT filename audio_bytes (stt_mime_type filename)) s)"
  by (cases "post_elevenlabs_stt w filename audio_bytes (stt_mime_type filename)")
    (simp_all add: elevenlabs_stt_unfold transient_failure_def)

lemma elevenlabs_stt_blocked:
  "elevenlabs_blocked (snd (elevenlabs_stt cfg w audio_bytes filename s)) \<longleftrightarrow>
     elevenlabs_blocked s
     \<or> blocking_response (post_elevenlabs_stt w filename audio_bytes (stt_mime_type filename))"
  by (cases "post_elevenlabs_stt w filename audio_bytes (stt_mime_type filename)")
    (simp_all add: elevenlabs_stt_unfold blocking_response_def called_def
      split: option.splits sum.splits)

lemma groq_whisper_stt_blocked:
  "elevenlabs_blocked (snd (groq_whisper_stt cfg w audio_bytes filename s)) = elevenlabs_blocked s"
  unfolding groq_whisper_stt_unfold
  by (simp add: called_def split: post_outcome.splits option.splits sum.splits)

lemma elevenlabs_tts_cases:
  "elevenlabs_tts cfg w txt s =
     (case post_elevenlabs_tts w txt of
        RequestError \<Rightarrow> (Inr None, called (ElevenLabsTTS txt) s)
      | Response resp \<Rightarrow>
          if is_success resp then (Inr (Some (resp_content resp)), called (ElevenLabsTTS txt) s)
          else if blocking_response (Response resp)
          then (Inr None, (called (ElevenLabsTTS txt) s)\<lparr>elevenlabs_blocked := True\<rparr>)
          else (Inr None, called (ElevenLabsTTS txt) s))"
  by (cases "post_elevenlabs_tts w txt")
    (simp_all add: elevenlabs_tts_def blocking_response_def Let_def)

lemma elevenlabs_tts_blocked:
  "elevenlabs_blocked (snd (elevenlabs_tts cfg w txt s)) \<longleftrightarrow>
     elevenlabs_blocked s \<or> blocking_response (post_elevenlabs_tts w txt)"
  by (cases "post_elevenlabs_tts w txt")
    (simp_all add: elevenlabs_tts_cases called_def blocking_response_def)

lemma elevenlabs_tts_calls:
  "calls (snd (elevenlabs_tts cfg w txt s)) = calls s @ [ElevenLabsTTS txt]"
  by (cases "post_elevenlabs_tts w txt") (simp_all add: elevenlabs_tts_cases called_def)

lemma edge_tts_blocked:
  "elevenlabs_blocked (snd (edge_tts w txt s)) = elevenlabs_blocked s"
  by (simp add: edge_tts_def called_def Let_def split: stream_outcome.splits)

lemma edge_tts_calls:
  "calls (snd (edge_tts w txt s)) = calls s @ [EdgeTTS txt]"
  by (simp add: edge_tts_def called_def Let_def split: stream_outcome.splits)

lemma edge_tts_no_exception:
  "fst (edge_tts w txt s) \<noteq> Inl e"
  by (simp add: edge_tts_def Let_def split: stream_outcome.splits)

lemma write_audio_concat:
  "write_audio cs buffer =
     buffer @ concat (map chunk_data (filter (\<lambda>c. chunk_type c = ''audio'') cs))"
  by (induction cs arbitrary: buffer) simp_all

lemma transcribe_audio_skip:
  "\<not> configured (ELEVENLABS_API_KEY cfg) \<or> elevenlabs_blocked s \<Longrightarrow>
   transcribe_audio cfg w audio_bytes filename s =
     (if configured (GROQ_API_KEY cfg) then groq_whisper_stt cfg w audio_bytes filename s
      else (Inr None, s))"
  by (auto simp add: transcribe_audio_def split: prod.splits sum.splits option.splits)

lemma transcribe_audio_try:
  "configured (ELEVENLABS_API_KEY cfg) \<Longrightarrow> \<not> elevenlabs_blocked s \<Longrightarrow>
   transcribe_audio cfg w audio_bytes filename s =
     (case elevenlabs_stt cfg w audio_bytes filename s of
        (Inr None, s1) \<Rightarrow>
          if configured (GROQ_API_KEY cfg) then groq_whisper_stt cfg w audio_bytes filename s1
          else (Inr None, s1)
      | (Inr (Some result), s1) \<Rightarrow> (Inr (Some result), s1)
      | (Inl e, s1) \<Rightarrow> (Inl e, s1))"
  by (auto simp add: transcribe_audio_def split: prod.splits sum.splits option.splits)

lemma text_to_speech_skip:
  "elevenlabs_blocked s \<or> \<not> configured (ELEVENLABS_API_KEY cfg)
     \<or> \<not> configured (ELEVENLABS_VOICE_ID cfg) \<Longrightarrow>
   text_to_speech cfg w txt s = edge_tts w txt s"
  by (auto simp add: text_to_speech_def split: prod.splits sum.splits option.splits)

lemma text_to_speech_try:
  "\<not> elevenlabs_blocked s \<Longrightarrow> configured (ELEVENLABS_API_KEY cfg) \<Longrightarrow>
   configured (ELEVENLABS_VOICE_ID cfg) \<Longrightarrow>
   text_to_speech cfg w txt s =
     (case elevenlabs_tts cfg w txt s of
        (Inr None, s1) \<Rightarrow> edge_tts w txt s1
      | (Inr (Some result), s1) \<Rightarrow> (Inr (Some result), s1)
      | (Inl e, s1) \<Rightarrow> (Inl e, s1))"
  by (auto simp add: text_to_speech_def split: prod.splits sum.splits option.splits)

lemma transcribe_audio_calls:
  "calls (snd (transcribe_audio cfg w audio_bytes filename s)) =
     calls s
     @ (if configured (ELEVENLABS_API_KEY cfg) \<and> \<not> elevenlabs_blocked s
        then [ElevenLabsSTT filename audio_bytes (stt_mime_type filename)] else [])
     @ (if configured (GROQ_API_KEY cfg)
           \<and> (configured (ELEVENLABS_API_KEY cfg) \<and> \<not> elevenlabs_blocked s \<longrightarrow>
                fst (elevenlabs_stt cfg w audio_bytes filename s) = Inr None)
        then [GroqSTT filename audio_bytes (stt_mime_type filename)] else [])"
proof (cases "configured (ELEVENLABS_API_KEY cfg) \<and> \<not> elevenlabs_blocked s")
  case False
  then show ?thesis
    by (auto simp add: transcribe_audio_skip groq_whisper_stt_calls)
next
  case True
  obtain r s1 where el: "elevenlabs_stt cfg w audio_bytes filename s = (r, s1)"
    by (cases "elevenlabs_stt cfg w audio_bytes filename s")
  have s1: "calls s1 = calls s @ [ElevenLabsSTT filename audio_bytes (stt_mime_type filename)]"
    using elevenlabs_stt_calls [of cfg w audio_bytes filename s] el by simp
  show ?thesis
    using True el s1
    by (simp add: transcribe_audio_try groq_whisper_stt_calls split: sum.splits option.splits)
qed

lemma transcribe_audio_blocked:
  "elevenlabs_blocked (snd (transcribe_audio cfg w audio_bytes filename s)) \<longleftrightarrow>
     elevenlabs_blocked s
     \<or> (configured (ELEVENLABS_API_KEY cfg)
        \<and> blocking_response
             (post_elevenlabs_stt w filename audio_bytes (stt_mime_type filename)))"
proof (cases "configured (ELEVENLABS_API_KEY cfg) \<and> \<not> elevenlabs_blocked s")
  case False
  then show ?thesis
    by (auto simp add: transcribe_audio_skip groq_whisper_stt_blocked)
next
  case True
  obtain r s1 where el: "elevenlabs_stt cfg w audio_bytes filename s = (r, s1)"
    by (cases "elevenlabs_stt cfg w audio_bytes filename s")
  have s1: "elevenlabs_blocked s1 \<longleftrightarrow>
      elevenlabs_blocked s
      \<or> blocking_response (post_elevenlabs_stt w filename audio_bytes (stt_mime_type filename))"
    using elevenlabs_stt_blocked [of cfg w audio_bytes filename s] el by simp
  show ?thesis
    using True el s1
    by (simp add: transcribe_audio_try groq_whisper_stt_blocked split: sum.splits option.splits)
qed

lemma text_to_speech_calls:
  "calls (snd (text_to_speech cfg w txt s)) =
     calls s
     @ (if \<not> elevenlabs_blocked s \<and> configured (ELEVENLABS_API_KEY cfg)
           \<and> configured (ELEVENLABS_VOICE_ID cfg)
        then [ElevenLabsTTS txt] else [])
     @ (if \<not> elevenlabs_blocked s \<and> configured (ELEVENLABS_API_KEY cfg)
           \<and> configured (ELEVENLABS_VOICE_ID cfg)
           \<longrightarrow> fst (elevenlabs_tts cfg w txt s) = Inr None
        then [EdgeTTS txt] else [])"
proof (cases "\<not> elevenlabs_blocked s \<and> configured (ELEVENLABS_API_KEY cfg)
           \<and> configured (ELEVENLABS_VOICE_ID cfg)")
  case False
  then show ?thesis
    by (auto simp add: text_to_speech_skip edge_tts_calls)
next
  case True
  obtain r s1 where el: "elevenlabs_tts cfg w txt s = (r, s1)"
    by (cases "elevenlabs_tts cfg w txt s")
  have s1: "calls s1 = calls s @ [ElevenLabsTTS txt]"
    using elevenlabs_tts_calls [of cfg w "txt" s] el by simp
  show ?thesis
    using True el s1
    by (simp add: text_to_speech_try edge_tts_calls split: sum.splits option.splits)
qed

lemma text_to_speech_blocked:
  "elevenlabs_blocked (snd (text_to_speech cfg w txt s)) \<longleftrightarrow>
     elevenlabs_blocked s
     \<or> (configured (ELEVENLABS_API_KEY cfg) \<and> configured (ELEVENLABS_VOICE_ID cfg)
        \<and> blocking_response (post_elevenlabs_tts w txt))"
proof (cases "\<not> elevenlabs_blocked s \<and> configured (ELEVENLABS_API_KEY cfg)
           \<and> configured (ELEVENLABS_VOICE_ID cfg)")
  case False
  then show ?thesis
    by (auto simp add: text_to_speech_skip edge_tts_blocked)
next
  case True
  obtain r s1 where el: "elevenlabs_tts cfg w txt s = (r, s1)"
    by (cases "elevenlabs_tts cfg w txt s")
  have s1: "elevenlabs_blocked s1 \<longleftrightarrow>
      elevenlabs_blocked s \<or> blocking_response (post_elevenlabs_tts w txt)"
    using elevenlabs_tts_blocked [of cfg w "txt" s] el by simp
  show ?thesis
    using True el s1
    by (simp add: text_to_speech_try edge_tts_blocked split: sum.splits option.splits)
qed

lemma serve_blocked_mono:
  "elevenlabs_blocked s \<Longrightarrow> elevenlabs_blocked (serve cfg r s)"
  by (cases r) (simp_all add: transcribe_audio_blocked text_to_speech_blocked)

lemma serve_all_blocked_mono:
  "elevenlabs_blocked s \<Longrightarrow> elevenlabs_blocked (serve_all cfg rs s)"
  by (induction rs arbitrary: s) (simp_all add: serve_blocked_mono)

lemma primary_called_iff:
  "primary_call r \<in> set (new_calls s (serve cfg r s)) \<longleftrightarrow>
     \<not> elevenlabs_blocked s \<and> configured (ELEVENLABS_API_KEY cfg)
     \<and> (case r of Transcribe w a f \<Rightarrow> True | Speak w t \<Rightarrow> configured (ELEVENLABS_VOICE_ID cfg))"
  by (cases r) (auto simp add: new_calls_def transcribe_audio_calls text_to_speech_calls)

lemma elevenlabs_stt_transcript:
  assumes "post_elevenlabs_stt w filename audio_bytes (stt_mime_type filename) = Response resp"
    and "is_success resp" and "resp_json resp = Some (JObj kvs)"
    and "map_of kvs ''text'' = Some (JStr transcript)" and "transcript \<noteq> []"
  shows "elevenlabs_stt cfg w audio_bytes filename s =
           (Inr (Some (JStr transcript)),
            called (ElevenLabsSTT filename audio_bytes (stt_mime_type filename)) s)"
  using assms by (simp add: elevenlabs_stt_unfold)

lemma elevenlabs_tts_failed:
  "post_elevenlabs_tts w txt = RequestError
     \<or> (\<exists>resp. post_elevenlabs_tts w txt = Response resp \<and> \<not> is_success resp) \<Longrightarrow>
   fst (elevenlabs_tts cfg w txt s) = Inr None"
  by (auto simp add: elevenlabs_tts_cases)

lemma edge_tts_result:
  "fst (edge_tts w txt s) =
     (case edge_stream w txt of
        Failed cs \<Rightarrow> Inr None
      | Completed cs \<Rightarrow>
          if write_audio cs [] \<noteq> [] then Inr (Some (write_audio cs [])) else Inr None)"
  by (simp add: edge_tts_def Let_def split: stream_outcome.splits)

lemma unauthorized_not_success: "status_code resp = 401 \<Longrightarrow> \<not> is_success resp"
  by (simp add: is_success_def)

lemma wav_mime: "stt_mime_type ''audio.wav'' = ''audio/wav''"
  by (simp add: stt_mime_type_def rsplit1_def lower_def lower_char_def mime_map_get_def
      mime_map_def)

subsection \<open>MIME types\<close>

text \<open>
  C7. For every filename with a declared extension (the part after the last dot, here
  \<open>e\<close>), both STT functions send the MIME type that the fixed table gives for the
  extension (taken in lower case): wav, mp3, webm, ogg, oga, opus, m4a and flac map to
  their known types, and any other extension maps to the default "audio/ogg". The
  witness is the pair "note.flac" (audio/flac) and "note.xyz" (audio/ogg).
\<close>

theorem mime_type_by_table:
  assumes "filename = stem @ ''.'' @ e" and "CHR ''.'' \<notin> set e" and "x = lower e"
    and "m = (if x = ''wav'' then ''audio/wav''
              else if x = ''mp3'' then ''audio/mpeg''
              else if x = ''webm'' then ''audio/webm''
              else if x = ''ogg'' \<or> x = ''oga'' \<or> x = ''opus'' then ''audio/ogg''
              else if x = ''m4a'' then ''audio/mp4''
              else if x = ''flac'' then ''audio/flac''
              else ''audio/ogg'')"
  shows "calls (snd (elevenlabs_stt cfg w audio_bytes filename s)) =
           calls s @ [ElevenLabsSTT filename audio_bytes m]
         \<and> calls (snd (groq_whisper_stt cfg w audio_bytes filename s)) =
           calls s @ [GroqSTT filename audio_bytes m]"
proof -
  have "stt_mime_type filename = mime_map_get x ''audio/ogg''"
    using assms(1-3) stt_mime_type_dotted [of e stem] by simp
  also have "\<dots> = m"
    unfolding assms(4) by (rule mime_map_get_table)
  finally show ?thesis
    by (simp add: elevenlabs_stt_calls groq_whisper_stt_calls)
qed

theorem mime_type_by_table_witness:
  "calls (snd (elevenlabs_stt all_keys healthy [9] ''note.flac'' initial_state)) =
     [ElevenLabsSTT ''note.flac'' [9] ''audio/flac'']
   \<and> calls (snd (groq_whisper_stt all_keys healthy [9] ''note.flac'' initial_state)) =
     [GroqSTT ''note.flac'' [9] ''audio/flac'']
   \<and> calls (snd (elevenlabs_stt all_keys healthy [9] ''note.xyz'' initial_state)) =
     [ElevenLabsSTT ''note.xyz'' [9] ''audio/ogg'']
   \<and> calls (snd (groq_whisper_stt all_keys healthy [9] ''note.xyz'' initial_state)) =
     [GroqSTT ''note.xyz'' [9] ''audio/ogg'']"
  using mime_type_by_table [of "''note.flac''" "''note''" "''flac''" "''flac''" "''audio/flac''"
      all_keys healthy "[9]" initial_state]
    mime_type_by_table [of "''note.xyz''" "''note''" "''xyz''" "''xyz''" "''audio/ogg''"
      all_keys healthy "[9]" initial_state]
  by (simp add: lower_def lower_char_def initial_state_def)

text \<open>
  C10. For a filename without any dot both STT functions take the extension to be "wav"
  and send "audio/wav", not the default of unknown extensions. Matching is
  case-insensitive: two extensions that agree after lowering get the same MIME type from
  both functions. The witness is "recording" (audio/wav) and "NOTE.FLAC" (audio/flac,
  as "note.flac").
\<close>

theorem extension_default_and_case:
  "(CHR ''.'' \<notin> set filename \<longrightarrow>
      calls (snd (elevenlabs_stt cfg w audio_bytes filename s)) =
        calls s @ [ElevenLabsSTT filename audio_bytes ''audio/wav'']
      \<and> calls (snd (groq_whisper_stt cfg w audio_bytes filename s)) =
        calls s @ [GroqSTT filename audio_bytes ''audio/wav''])
   \<and> (CHR ''.'' \<notin> set e \<and> CHR ''.'' \<notin> set e' \<and> lower e = lower e' \<longrightarrow>
      (\<exists>m. calls (snd (elevenlabs_stt cfg w audio_bytes (stem @ ''.'' @ e) s)) =
             calls s @ [ElevenLabsSTT (stem @ ''.'' @ e) audio_bytes m]
           \<and> calls (snd (elevenlabs_stt cfg w audio_bytes (stem' @ ''.'' @ e') s)) =
             calls s @ [ElevenLabsSTT (stem' @ ''.'' @ e') audio_bytes m]
           \<and> calls (snd (groq_whisper_stt cfg w audio_bytes (stem @ ''.'' @ e) s)) =
             calls s @ [GroqSTT (stem @ ''.'' @ e) audio_bytes m]
           \<and> calls (snd (groq_whisper_stt cfg w audio_bytes (stem' @ ''.'' @ e') s)) =
             calls s @ [GroqSTT (stem' @ ''.'' @ e') audio_bytes m]))"
proof (intro conjI impI)
  assume "CHR ''.'' \<notin> set filename"
  then have "stt_mime_type filename = ''audio/wav''"
    by (rule stt_mime_type_undotted)
  then show "calls (snd (elevenlabs_stt cfg w audio_bytes filename s)) =
        calls s @ [ElevenLabsSTT filename audio_bytes ''audio/wav'']"
    and "calls (snd (groq_whisper_stt cfg w audio_bytes filename s)) =
        calls s @ [GroqSTT filename audio_bytes ''audio/wav'']"
    by (simp_all add: elevenlabs_stt_calls groq_whisper_stt_calls)
next
  assume h: "CHR ''.'' \<notin> set e \<and> CHR ''.'' \<notin> set e' \<and> lower e = lower e'"
  then have "stt_mime_type (stem' @ ''.'' @ e') = stt_mime_type (stem @ ''.'' @ e)"
    using stt_mime_type_dotted [of e stem] stt_mime_type_dotted [of e' stem'] by simp
  then show "\<exists>m. calls (snd (elevenlabs_stt cfg w audio_bytes (stem @ ''.'' @ e) s)) =
             calls s @ [ElevenLabsSTT (stem @ ''.'' @ e) audio_bytes m]
           \<and> calls (snd (elevenlabs_stt cfg w audio_bytes (stem' @ ''.'' @ e') s)) =
             calls s @ [ElevenLabsSTT (stem' @ ''.'' @ e') audio_bytes m]
           \<and> calls (snd (groq_whisper_stt cfg w audio_bytes (stem @ ''.'' @ e) s)) =
             calls s @ [GroqSTT (stem @ ''.'' @ e) audio_bytes m]
           \<and> calls (snd (groq_whisper_stt cfg w audio_bytes (stem' @ ''.'' @ e') s)) =
             calls s @ [GroqSTT (stem' @ ''.'' @ e') audio_bytes m]"
    by (simp add: elevenlabs_stt_calls groq_whisper_stt_calls)
qed

theorem extension_default_and_case_witness:
  "calls (snd (elevenlabs_stt all_keys healthy [9] ''recording'' initial_state)) =
     [ElevenLabsSTT ''recording'' [9] ''audio/wav'']
   \<and> calls (snd (groq_whisper_stt all_keys healthy [9] ''recording'' initial_state)) =
     [GroqSTT ''recording'' [9] ''audio/wav'']
   \<and> calls (snd (elevenlabs_stt all_keys healthy [9] ''NOTE.FLAC'' initial_state)) =
     [ElevenLabsSTT ''NOTE.FLAC'' [9] ''audio/flac'']
   \<and> calls (snd (groq_whisper_stt all_keys healthy [9] ''NOTE.FLAC'' initial_state)) =
     [GroqSTT ''NOTE.FLAC'' [9] ''audio/flac'']"
proof -
  have flac: "stt_mime_type ''note.flac'' = ''audio/flac''"
    by (simp add: stt_mime_type_def rsplit1_def lower_def lower_char_def mime_map_get_def
        mime_map_def)
  have low: "lower ''FLAC'' = lower ''flac''"
    by (simp add: lower_def lower_char_def)
  have dots: "CHR ''.'' \<notin> set ''recording''" "CHR ''.'' \<notin> set ''FLAC''"
    "CHR ''.'' \<notin> set ''flac''"
    by simp_all
  show ?thesis
    using extension_default_and_case [of "''recording''" all_keys healthy "[9]" initial_state
        "''FLAC''" "''flac''" "''NOTE''" "''note''"] flac low dots
    by (auto simp add: initial_state_def elevenlabs_stt_calls groq_whisper_stt_calls)
qed

subsection \<open>The STT chain\<close>

text \<open>
  C1. When the primary STT provider is configured, the flag is not set and the primary
  answers with a non-empty transcript, \<open>transcribe_audio\<close> returns exactly that
  transcript, and the only outbound call of the request is the one to ElevenLabs: Groq is
  not called.
\<close>

theorem primary_transcript_returned:
  assumes "configured (ELEVENLABS_API_KEY cfg)" and "\<not> elevenlabs_blocked s"
    and "post_elevenlabs_stt w filename audio_bytes (stt_mime_type filename) = Response resp"
    and "is_success resp" and "resp_json resp = Some (JObj kvs)"
    and "map_of kvs ''text'' = Some (JStr transcript)" and "transcript \<noteq> []"
  shows "fst (transcribe_audio cfg w audio_bytes filename s) = Inr (Some (JStr transcript))
         \<and> new_calls s (snd (transcribe_audio cfg w audio_bytes filename s)) =
             [ElevenLabsSTT filename audio_bytes (stt_mime_type filename)]"
  using assms
  by (simp add: transcribe_audio_try elevenlabs_stt_transcript new_calls_def called_def)

theorem primary_transcript_returned_witness:
  "fst (transcribe_audio all_keys
          (answers (ok_json (JObj [(''text'', JStr ''help me'')]))
                   (ok_json (JObj [(''text'', JStr ''from groq'')])) RequestError (Failed []))
          [1, 2] ''audio.wav'' initial_state) = Inr (Some (JStr ''help me''))
   \<and> new_calls initial_state
        (snd (transcribe_audio all_keys
          (answers (ok_json (JObj [(''text'', JStr ''help me'')]))
                   (ok_json (JObj [(''text'', JStr ''from groq'')])) RequestError (Failed []))
          [1, 2] ''audio.wav'' initial_state)) = [ElevenLabsSTT ''audio.wav'' [1, 2] ''audio/wav'']"
  using primary_transcript_returned [of all_keys initial_state
      "answers (ok_json (JObj [(''text'', JStr ''help me'')]))
               (ok_json (JObj [(''text'', JStr ''from groq'')])) RequestError (Failed [])"
      "''audio.wav''" "[1, 2]"
      "\<lparr>status_code = 200, resp_text = [], resp_content = [],
        resp_json = Some (JObj [(''text'', JStr ''help me'')])\<rparr>"
      "[(''text'', JStr ''help me'')]" "''help me''"]
  by (simp add: all_keys_def initial_state_def answers_def ok_json_def is_success_def
      stt_mime_type_def rsplit1_def lower_def lower_char_def mime_map_get_def mime_map_def)

text \<open>
  C4. When neither STT provider is configured (the key is None or empty),
  \<open>transcribe_audio\<close> returns None and leaves the state as it was: the trace of
  outbound calls has not grown, so no HTTP call was attempted.
\<close>

theorem no_provider_configured:
  assumes "\<not> configured (ELEVENLABS_API_KEY cfg)" and "\<not> configured (GROQ_API_KEY cfg)"
  shows "transcribe_audio cfg w audio_bytes filename s = (Inr None, s)"
  using assms by (simp add: transcribe_audio_skip)

theorem no_provider_configured_witness:
  "transcribe_audio no_keys
     (answers (ok_json (JObj [(''text'', JStr ''help me'')]))
              (ok_json (JObj [(''text'', JStr ''from groq'')])) RequestError (Failed []))
     [1, 2] ''audio.wav'' initial_state = (Inr None, initial_state)
   \<and> calls initial_state = []"
  using no_provider_configured [of no_keys
      "answers (ok_json (JObj [(''text'', JStr ''help me'')]))
               (ok_json (JObj [(''text'', JStr ''from groq'')])) RequestError (Failed [])"
      "[1, 2]" "''audio.wav''" initial_state]
  by (simp add: no_keys_def initial_state_def)

subsection \<open>The TTS chain\<close>

text \<open>
  C5. Whenever the primary TTS step gives no result (the flag is set, the key or the voice
  identifier is not configured, the request fails in transport, or the response has an
  error status), \<open>text_to_speech\<close> calls Edge-TTS; and when the stream completes and
  the data of its audio chunks, concatenated, is not empty, the result is exactly those
  bytes.
\<close>

theorem edge_tts_after_primary:
  assumes "elevenlabs_blocked s \<or> \<not> configured (ELEVENLABS_API_KEY cfg)
           \<or> \<not> configured (ELEVENLABS_VOICE_ID cfg)
           \<or> post_elevenlabs_tts w txt = RequestError
           \<or> (\<exists>resp. post_elevenlabs_tts w txt = Response resp \<and> \<not> is_success resp)"
  shows "EdgeTTS txt \<in> set (new_calls s (snd (text_to_speech cfg w txt s)))
         \<and> (edge_stream w txt = Completed cs
              \<and> concat (map chunk_data (filter (\<lambda>c. chunk_type c = ''audio'') cs)) \<noteq> []
            \<longrightarrow> fst (text_to_speech cfg w txt s) =
                  Inr (Some (concat (map chunk_data
                                       (filter (\<lambda>c. chunk_type c = ''audio'') cs)))))"
proof (cases "\<not> elevenlabs_blocked s \<and> configured (ELEVENLABS_API_KEY cfg)
           \<and> configured (ELEVENLABS_VOICE_ID cfg)")
  case False
  then have "text_to_speech cfg w txt s = edge_tts w txt s"
    by (auto simp add: text_to_speech_skip)
  then show ?thesis
    by (simp add: new_calls_def edge_tts_calls edge_tts_result write_audio_concat)
next
  case True
  with assms have failed: "fst (elevenlabs_tts cfg w txt s) = Inr None"
    by (auto simp add: elevenlabs_tts_failed)
  obtain s1 where el: "elevenlabs_tts cfg w txt s = (Inr None, s1)"
    using failed by (cases "elevenlabs_tts cfg w txt s") simp
  have tts: "text_to_speech cfg w txt s = edge_tts w txt s1"
    using True el by (simp add: text_to_speech_try)
  have "calls s1 = calls s @ [ElevenLabsTTS txt]"
    using elevenlabs_tts_calls [of cfg w "txt" s] el by simp
  then show ?thesis
    by (simp add: tts new_calls_def edge_tts_calls edge_tts_result write_audio_concat)
qed

theorem edge_tts_after_primary_witness:
  "EdgeTTS ''stay calm'' \<in> set (new_calls initial_state
      (snd (text_to_speech all_keys
         (answers RequestError RequestError (http_error 500 ''Internal Server Error'')
            (Completed [audio_chunk [1, 2], boundary_chunk, audio_chunk [3]]))
         ''stay calm'' initial_state)))
   \<and> fst (text_to_speech all_keys
         (answers RequestError RequestError (http_error 500 ''Internal Server Error'')
            (Completed [audio_chunk [1, 2], boundary_chunk, audio_chunk [3]]))
         ''stay calm'' initial_state) = Inr (Some [1, 2, 3])"
  using edge_tts_after_primary [of initial_state all_keys
      "answers RequestError RequestError (http_error 500 ''Internal Server Error'')
         (Completed [audio_chunk [1, 2], boundary_chunk, audio_chunk [3]])"
      "''stay calm''" "[audio_chunk [1, 2], boundary_chunk, audio_chunk [3]]"]
  by (simp add: all_keys_def initial_state_def answers_def http_error_def is_success_def
      audio_chunk_def boundary_chunk_def)

text \<open>
  C6. The claim is that \<open>text_to_speech\<close> returns None whenever each of the two
  providers fails or produces an empty result. \<open>_edge_tts\<close> and both STT functions
  test their result for emptiness; \<open>_elevenlabs_tts\<close> does not. When ElevenLabs answers
  200 with an empty body, \<open>text_to_speech\<close> returns the empty byte string, which is
  not None, and Edge-TTS is not tried.
\<close>

theorem empty_primary_audio_returned:
  "text_to_speech all_keys (answers RequestError RequestError (ok_audio []) (Completed []))
     ''stay calm'' initial_state =
     (Inr (Some []), \<lparr>elevenlabs_blocked = False, calls = [ElevenLabsTTS ''stay calm'']\<rparr>)"
  by (simp add: text_to_speech_def elevenlabs_tts_def called_def all_keys_def
      initial_state_def answers_def ok_audio_def is_success_def)

subsection \<open>The flag\<close>

text \<open>
  C9. A failure of the primary that is not classified as blocking (an error status other
  than 401 whose body lacks the marker, or a transport error or timeout) leaves the flag
  as it was, unset, and the chain goes on to the next provider: Groq when it is
  configured, Edge-TTS for speech.
\<close>

theorem transient_failure_keeps_flag:
  assumes "\<not> elevenlabs_blocked s" and "configured (ELEVENLABS_API_KEY cfg)"
  shows "(transient_failure
            (post_elevenlabs_stt w filename audio_bytes (stt_mime_type filename)) \<longrightarrow>
          \<not> elevenlabs_blocked (snd (transcribe_audio cfg w audio_bytes filename s))
          \<and> transcribe_audio cfg w audio_bytes filename s =
              (if configured (GROQ_API_KEY cfg)
               then groq_whisper_stt cfg w audio_bytes filename
                      (called (ElevenLabsSTT filename audio_bytes (stt_mime_type filename)) s)
               else (Inr None,
                     called (ElevenLabsSTT filename audio_bytes (stt_mime_type filename)) s)))
       \<and> (configured (ELEVENLABS_VOICE_ID cfg) \<and> transient_failure (post_elevenlabs_tts w txt)
          \<longrightarrow> \<not> elevenlabs_blocked (snd (text_to_speech cfg w txt s))
              \<and> text_to_speech cfg w txt s = edge_tts w txt (called (ElevenLabsTTS txt) s))"
proof (intro conjI impI)
  assume t: "transient_failure
       (post_elevenlabs_stt w filename audio_bytes (stt_mime_type filename))"
  show eq: "transcribe_audio cfg w audio_bytes filename s =
      (if configured (GROQ_API_KEY cfg)
       then groq_whisper_stt cfg w audio_bytes filename
              (called (ElevenLabsSTT filename audio_bytes (stt_mime_type filename)) s)
       else (Inr None, called (ElevenLabsSTT filename audio_bytes (stt_mime_type filename)) s))"
    using assms t by (simp add: transcribe_audio_try elevenlabs_stt_transient)
  show "\<not> elevenlabs_blocked (snd (transcribe_audio cfg w audio_bytes filename s))"
    using assms by (simp add: eq groq_whisper_stt_blocked called_def)
next
  assume t: "configured (ELEVENLABS_VOICE_ID cfg) \<and> transient_failure (post_elevenlabs_tts w txt)"
  then have el: "elevenlabs_tts cfg w txt s = (Inr None, called (ElevenLabsTTS txt) s)"
    by (cases "post_elevenlabs_tts w txt")
      (simp_all add: elevenlabs_tts_cases transient_failure_def blocking_response_def)
  show eq: "text_to_speech cfg w txt s = edge_tts w txt (called (ElevenLabsTTS txt) s)"
    using assms t by (simp add: text_to_speech_try el)
  show "\<not> elevenlabs_blocked (snd (text_to_speech cfg w txt s))"
    using assms by (simp add: eq edge_tts_blocked called_def)
qed

theorem transient_failure_keeps_flag_witness:
  "transcribe_audio all_keys
     (answers (http_error 500 ''Internal Server Error'')
        (ok_json (JObj [(''text'', JStr ''from groq'')])) RequestError
        (Completed [audio_chunk [1, 2]]))
     [9] ''a.mp3'' initial_state =
     (Inr (Some (JStr ''from groq'')),
      \<lparr>elevenlabs_blocked = False,
       calls = [ElevenLabsSTT ''a.mp3'' [9] ''audio/mpeg'', GroqSTT ''a.mp3'' [9] ''audio/mpeg'']\<rparr>)
   \<and> text_to_speech all_keys
     (answers (http_error 500 ''Internal Server Error'')
        (ok_json (JObj [(''text'', JStr ''from groq'')])) RequestError
        (Completed [audio_chunk [1, 2]]))
     ''stay calm'' initial_state =
     (Inr (Some [1, 2]),
      \<lparr>elevenlabs_blocked = False, calls = [ElevenLabsTTS ''stay calm'', EdgeTTS ''stay calm'']\<rparr>)"
proof -
  have m: "stt_mime_type ''a.mp3'' = ''audio/mpeg''"
    by (simp add: stt_mime_type_def rsplit1_def lower_def lower_char_def mime_map_get_def
        mime_map_def)
  show ?thesis
    using transient_failure_keeps_flag [of initial_state all_keys
        "answers (http_error 500 ''Internal Server Error'')
           (ok_json (JObj [(''text'', JStr ''from groq'')])) RequestError
           (Completed [audio_chunk [1, 2]])"
        "''a.mp3''" "[9]" "''stay calm''"]
    by (simp add: m all_keys_def initial_state_def answers_def http_error_def ok_json_def
        is_success_def transient_failure_def called_def groq_whisper_stt_unfold edge_tts_def
        audio_chunk_def)
qed

text \<open>
  C2 as it is worded fails for an answer that carries the marker under a success status.
  The marker is looked for in the \<^verbatim>\<open>except httpx.HTTPStatusError\<close> branch only. When
  ElevenLabs answers 200 with a JSON body that contains the marker and an empty
  transcript, this call falls through to Groq, but the flag stays unset, and the next
  call of \<open>transcribe_audio\<close> calls the primary again.
\<close>

theorem marker_in_success_body_counterexample:
  "post_elevenlabs_stt marker_in_success ''audio.wav'' [9] (stt_mime_type ''audio.wav'') =
     Response marker_ok_response
   \<and> str_contains ''unusual_activity'' (resp_text marker_ok_response)
   \<and> transcribe_audio all_keys marker_in_success [9] ''audio.wav'' initial_state =
       (Inr (Some (JStr ''from groq'')),
        \<lparr>elevenlabs_blocked = False,
         calls = [ElevenLabsSTT ''audio.wav'' [9] ''audio/wav'',
                  GroqSTT ''audio.wav'' [9] ''audio/wav'']\<rparr>)
   \<and> transcribe_audio all_keys healthy [8] ''audio.wav''
         (snd (transcribe_audio all_keys marker_in_success [9] ''audio.wav'' initial_state)) =
       (Inr (Some (JStr ''from elevenlabs'')),
        \<lparr>elevenlabs_blocked = False,
         calls = [ElevenLabsSTT ''audio.wav'' [9] ''audio/wav'',
                  GroqSTT ''audio.wav'' [9] ''audio/wav'',
                  ElevenLabsSTT ''audio.wav'' [8] ''audio/wav'']\<rparr>)"
proof -
  have first: "transcribe_audio all_keys marker_in_success [9] ''audio.wav'' initial_state =
       (Inr (Some (JStr ''from groq'')),
        \<lparr>elevenlabs_blocked = False,
         calls = [ElevenLabsSTT ''audio.wav'' [9] ''audio/wav'',
                  GroqSTT ''audio.wav'' [9] ''audio/wav'']\<rparr>)"
    by (simp add: transcribe_audio_def elevenlabs_stt_unfold groq_whisper_stt_unfold wav_mime
        called_def all_keys_def initial_state_def marker_in_success_def answers_def
        marker_ok_response_def ok_json_def is_success_def)
  have second: "transcribe_audio all_keys healthy [8] ''audio.wav''
         \<lparr>elevenlabs_blocked = False,
          calls = [ElevenLabsSTT ''audio.wav'' [9] ''audio/wav'',
                   GroqSTT ''audio.wav'' [9] ''audio/wav'']\<rparr> =
       (Inr (Some (JStr ''from elevenlabs'')),
        \<lparr>elevenlabs_blocked = False,
         calls = [ElevenLabsSTT ''audio.wav'' [9] ''audio/wav'',
                  GroqSTT ''audio.wav'' [9] ''audio/wav'',
                  ElevenLabsSTT ''audio.wav'' [8] ''audio/wav'']\<rparr>)"
    by (simp add: transcribe_audio_def elevenlabs_stt_unfold wav_mime called_def all_keys_def
        healthy_def answers_def ok_json_def is_success_def)
  have marker: "str_contains ''unusual_activity'' (resp_text marker_ok_response)"
    by (simp add: marker_ok_response_def)
  have answer: "post_elevenlabs_stt marker_in_success ''audio.wav'' [9]
      (stt_mime_type ''audio.wav'') = Response marker_ok_response"
    by (simp add: marker_in_success_def answers_def)
  show ?thesis
    using answer marker first second by simp
qed

text \<open>
  C2, amended. When the primary STT call is answered with status 401, or with an error
  status and a body that contains the marker, this call of \<open>transcribe_audio\<close> sets
  the flag and goes on to Groq (when Groq is configured; it returns None otherwise).
  After any further requests \<open>rs\<close>, a later call of \<open>transcribe_audio\<close> behaves as
  the Groq step alone, whatever the primary would answer: its only outbound call is the
  one to Groq.
\<close>

theorem blocked_primary_is_skipped:
  assumes "configured (ELEVENLABS_API_KEY cfg)" and "\<not> elevenlabs_blocked s"
    and "post_elevenlabs_stt w filename audio_bytes (stt_mime_type filename) = Response resp"
    and "status_code resp = 401
         \<or> (\<not> is_success resp \<and> str_contains ''unusual_activity'' (resp_text resp))"
    and "s' = snd (transcribe_audio cfg w audio_bytes filename s)"
    and "s'' = serve_all cfg rs s'"
  shows "transcribe_audio cfg w audio_bytes filename s =
           (if configured (GROQ_API_KEY cfg)
            then groq_whisper_stt cfg w audio_bytes filename
                   ((called (ElevenLabsSTT filename audio_bytes (stt_mime_type filename)) s)
                      \<lparr>elevenlabs_blocked := True\<rparr>)
            else (Inr None,
                  (called (ElevenLabsSTT filename audio_bytes (stt_mime_type filename)) s)
                    \<lparr>elevenlabs_blocked := True\<rparr>))
         \<and> elevenlabs_blocked s'
         \<and> transcribe_audio cfg w_next audio_next filename_next s'' =
             (if configured (GROQ_API_KEY cfg)
              then groq_whisper_stt cfg w_next audio_next filename_next s''
              else (Inr None, s''))
         \<and> new_calls s'' (snd (transcribe_audio cfg w_next audio_next filename_next s'')) =
             (if configured (GROQ_API_KEY cfg)
              then [GroqSTT filename_next audio_next (stt_mime_type filename_next)] else [])"
proof -
  have b: "blocking_response
      (post_elevenlabs_stt w filename audio_bytes (stt_mime_type filename))"
    using assms(3,4) unauthorized_not_success [of resp]
    by (auto simp add: blocking_response_def)
  have first: "transcribe_audio cfg w audio_bytes filename s =
           (if configured (GROQ_API_KEY cfg)
            then groq_whisper_stt cfg w audio_bytes filename
                   ((called (ElevenLabsSTT filename audio_bytes (stt_mime_type filename)) s)
                      \<lparr>elevenlabs_blocked := True\<rparr>)
            else (Inr None,
                  (called (ElevenLabsSTT filename audio_bytes (stt_mime_type filename)) s)
                    \<lparr>elevenlabs_blocked := True\<rparr>))"
    using assms(1,2) b by (simp add: transcribe_audio_try elevenlabs_stt_blocking)
  have s': "elevenlabs_blocked s'"
    using assms(1) b by (simp add: assms(5) transcribe_audio_blocked)
  then have s'': "elevenlabs_blocked s''"
    by (simp add: assms(6) serve_all_blocked_mono)
  have later: "transcribe_audio cfg w_next audio_next filename_next s'' =
             (if configured (GROQ_API_KEY cfg)
              then groq_whisper_stt cfg w_next audio_next filename_next s''
              else (Inr None, s''))"
    using s'' by (simp add: transcribe_audio_skip)
  have trace: "new_calls s'' (snd (transcribe_audio cfg w_next audio_next filename_next s'')) =
             (if configured (GROQ_API_KEY cfg)
              then [GroqSTT filename_next audio_next (stt_mime_type filename_next)] else [])"
    using s'' by (simp add: new_calls_def transcribe_audio_calls)
  show ?thesis
    using first s' later trace by blast
qed

theorem blocked_primary_is_skipped_witness:
  "transcribe_audio all_keys unauthorized [9] ''audio.wav'' initial_state =
     (Inr (Some (JStr ''from groq'')),
      \<lparr>elevenlabs_blocked = True,
       calls = [ElevenLabsSTT ''audio.wav'' [9] ''audio/wav'',
                GroqSTT ''audio.wav'' [9] ''audio/wav'']\<rparr>)
   \<and> transcribe_audio all_keys healthy [8] ''audio.wav''
       (serve_all all_keys [Speak healthy ''stay calm'']
          (snd (transcribe_audio all_keys unauthorized [9] ''audio.wav'' initial_state))) =
     (Inr (Some (JStr ''from groq'')),
      \<lparr>elevenlabs_blocked = True,
       calls = [ElevenLabsSTT ''audio.wav'' [9] ''audio/wav'',
                GroqSTT ''audio.wav'' [9] ''audio/wav'',
                EdgeTTS ''stay calm'',
                GroqSTT ''audio.wav'' [8] ''audio/wav'']\<rparr>)"
proof -
  have h1: "configured (ELEVENLABS_API_KEY all_keys)" and g: "configured (GROQ_API_KEY all_keys)"
    by (simp_all add: all_keys_def)
  have h2: "\<not> elevenlabs_blocked initial_state"
    by (simp add: initial_state_def)
  have h3: "post_elevenlabs_stt unauthorized ''audio.wav'' [9] (stt_mime_type ''audio.wav'') =
      Response \<lparr>status_code = 401, resp_text = ''Unauthorized'', resp_content = [],
                resp_json = None\<rparr>"
    by (simp add: unauthorized_def answers_def http_error_def)
  have h4: "status_code \<lparr>status_code = 401, resp_text = ''Unauthorized'', resp_content = [],
                resp_json = None\<rparr> = 401
      \<or> (\<not> is_success \<lparr>status_code = 401, resp_text = ''Unauthorized'', resp_content = [],
                resp_json = None\<rparr>
         \<and> str_contains ''unusual_activity''
             (resp_text \<lparr>status_code = 401, resp_text = ''Unauthorized'', resp_content = [],
                resp_json = None\<rparr>))"
    by simp
  have groq_u: "groq_whisper_stt all_keys unauthorized a ''audio.wav'' s =
      (Inr (Some (JStr ''from groq'')), called (GroqSTT ''audio.wav'' a ''audio/wav'') s)" for a s
    by (simp add: groq_whisper_stt_unfold wav_mime unauthorized_def answers_def ok_json_def
        is_success_def)
  have groq_h: "groq_whisper_stt all_keys healthy a ''audio.wav'' s =
      (Inr (Some (JStr ''from groq'')), called (GroqSTT ''audio.wav'' a ''audio/wav'') s)" for a s
    by (simp add: groq_whisper_stt_unfold wav_mime healthy_def answers_def ok_json_def
        is_success_def)
  note skipped = blocked_primary_is_skipped [where rs = "[Speak healthy ''stay calm'']"
      and w_next = healthy and audio_next = "[8]" and filename_next = "''audio.wav''",
      OF h1 h2 h3 h4 refl refl]
  have first: "transcribe_audio all_keys unauthorized [9] ''audio.wav'' initial_state =
     (Inr (Some (JStr ''from groq'')),
      \<lparr>elevenlabs_blocked = True,
       calls = [ElevenLabsSTT ''audio.wav'' [9] ''audio/wav'',
                GroqSTT ''audio.wav'' [9] ''audio/wav'']\<rparr>)"
    using skipped [THEN conjunct1] g by (simp add: groq_u wav_mime called_def initial_state_def)
  have between: "serve_all all_keys [Speak healthy ''stay calm'']
      \<lparr>elevenlabs_blocked = True,
       calls = [ElevenLabsSTT ''audio.wav'' [9] ''audio/wav'',
                GroqSTT ''audio.wav'' [9] ''audio/wav'']\<rparr> =
      \<lparr>elevenlabs_blocked = True,
       calls = [ElevenLabsSTT ''audio.wav'' [9] ''audio/wav'',
                GroqSTT ''audio.wav'' [9] ''audio/wav'', EdgeTTS ''stay calm'']\<rparr>"
    by (simp add: text_to_speech_skip edge_tts_def called_def healthy_def answers_def
        audio_chunk_def)
  have later: "transcribe_audio all_keys healthy [8] ''audio.wav''
       (serve_all all_keys [Speak healthy ''stay calm'']
          (snd (transcribe_audio all_keys unauthorized [9] ''audio.wav'' initial_state))) =
     groq_whisper_stt all_keys healthy [8] ''audio.wav''
       (serve_all all_keys [Speak healthy ''stay calm'']
          (snd (transcribe_audio all_keys unauthorized [9] ''audio.wav'' initial_state)))"
    using skipped [THEN conjunct2, THEN conjunct2, THEN conjunct1] by (simp only: g if_True)
  show ?thesis
    unfolding later unfolding first
    by (simp only: snd_conv between groq_h) (simp add: called_def)
qed

text \<open>
  C3 as it is worded fails in the same way on the TTS side: when ElevenLabs answers 200
  with an audio body whose text contains the marker, the primary was called, the answer
  carries the marker, and the flag is still unset.
\<close>

theorem marker_in_success_audio_counterexample:
  "primary_answer (Speak marker_in_success ''stay calm'') = Response marker_audio_response
   \<and> str_contains ''unusual_activity'' (resp_text marker_audio_response)
   \<and> primary_call (Speak marker_in_success ''stay calm'')
       \<in> set (new_calls initial_state
                (serve all_keys (Speak marker_in_success ''stay calm'') initial_state))
   \<and> \<not> elevenlabs_blocked (serve all_keys (Speak marker_in_success ''stay calm'') initial_state)"
  by (simp add: text_to_speech_def elevenlabs_tts_def new_calls_def called_def all_keys_def
      initial_state_def marker_in_success_def answers_def marker_audio_response_def
      is_success_def)

text \<open>
  C3, amended. The flag is a two-state machine. It starts unset. A call of
  \<open>transcribe_audio\<close> leaves it set exactly when it was set before or the key is
  configured and the primary STT answer is an error response with status 401 or with the
  marker in its body; a call of \<open>text_to_speech\<close> likewise, with the voice identifier
  configured too and the primary TTS answer: the flag is one and the same for both
  chains. A request calls the primary exactly when the flag is unset and the primary is
  configured, so a request sets the flag exactly when it calls the primary and the answer
  is such a blocking one. Once the flag is set no request calls the primary, and it stays
  set after any sequence of requests.
\<close>

theorem blocked_flag_state_machine:
  "\<not> elevenlabs_blocked initial_state
   \<and> (elevenlabs_blocked (snd (transcribe_audio cfg w audio_bytes filename s)) \<longleftrightarrow>
        elevenlabs_blocked s
        \<or> (configured (ELEVENLABS_API_KEY cfg)
           \<and> blocking_response
                (post_elevenlabs_stt w filename audio_bytes (stt_mime_type filename))))
   \<and> (elevenlabs_blocked (snd (text_to_speech cfg w txt s)) \<longleftrightarrow>
        elevenlabs_blocked s
        \<or> (configured (ELEVENLABS_API_KEY cfg) \<and> configured (ELEVENLABS_VOICE_ID cfg)
           \<and> blocking_response (post_elevenlabs_tts w txt)))
   \<and> (primary_call r \<in> set (new_calls s (serve cfg r s)) \<longleftrightarrow>
        \<not> elevenlabs_blocked s \<and> configured (ELEVENLABS_API_KEY cfg)
        \<and> (case r of Transcribe w' a f \<Rightarrow> True
            | Speak w' t \<Rightarrow> configured (ELEVENLABS_VOICE_ID cfg)))
   \<and> (elevenlabs_blocked (serve cfg r s) \<longleftrightarrow>
        elevenlabs_blocked s
        \<or> (primary_call r \<in> set (new_calls s (serve cfg r s))
           \<and> blocking_response (primary_answer r)))
   \<and> (elevenlabs_blocked s \<longrightarrow> primary_call r \<notin> set (new_calls s (serve cfg r s)))
   \<and> (elevenlabs_blocked s \<longrightarrow> elevenlabs_blocked (serve_all cfg rs s))"
proof (intro conjI)
  show "\<not> elevenlabs_blocked initial_state"
    by (simp add: initial_state_def)
  show "elevenlabs_blocked (snd (transcribe_audio cfg w audio_bytes filename s)) \<longleftrightarrow>
        elevenlabs_blocked s
        \<or> (configured (ELEVENLABS_API_KEY cfg)
           \<and> blocking_response
                (post_elevenlabs_stt w filename audio_bytes (stt_mime_type filename)))"
    by (rule transcribe_audio_blocked)
  show "elevenlabs_blocked (snd (text_to_speech cfg w txt s)) \<longleftrightarrow>
        elevenlabs_blocked s
        \<or> (configured (ELEVENLABS_API_KEY cfg) \<and> configured (ELEVENLABS_VOICE_ID cfg)
           \<and> blocking_response (post_elevenlabs_tts w txt))"
    by (rule text_to_speech_blocked)
  show "primary_call r \<in> set (new_calls s (serve cfg r s)) \<longleftrightarrow>
        \<not> elevenlabs_blocked s \<and> configured (ELEVENLABS_API_KEY cfg)
        \<and> (case r of Transcribe w' a f \<Rightarrow> True
            | Speak w' t \<Rightarrow> configured (ELEVENLABS_VOICE_ID cfg))"
    by (rule primary_called_iff)
  show "elevenlabs_blocked (serve cfg r s) \<longleftrightarrow>
        elevenlabs_blocked s
        \<or> (primary_call r \<in> set (new_calls s (serve cfg r s))
           \<and> blocking_response (primary_answer r))"
    unfolding primary_called_iff
    by (cases r) (auto simp add: transcribe_audio_blocked text_to_speech_blocked)
  show "elevenlabs_blocked s \<longrightarrow> primary_call r \<notin> set (new_calls s (serve cfg r s))"
    by (simp add: primary_called_iff)
  show "elevenlabs_blocked s \<longrightarrow> elevenlabs_blocked (serve_all cfg rs s)"
    by (simp add: serve_all_blocked_mono)
qed

theorem blocked_flag_state_machine_witness:
  "\<not> elevenlabs_blocked initial_state
   \<and> elevenlabs_blocked
       (snd (transcribe_audio all_keys unauthorized [9] ''audio.wav'' initial_state))
   \<and> \<not> elevenlabs_blocked
       (snd (transcribe_audio all_keys healthy [9] ''audio.wav'' initial_state))
   \<and> elevenlabs_blocked (snd (text_to_speech all_keys unauthorized ''stay calm'' initial_state))
   \<and> \<not> elevenlabs_blocked (snd (text_to_speech all_keys healthy ''stay calm'' initial_state))
   \<and> ElevenLabsSTT ''audio.wav'' [9] ''audio/wav'' \<in>
       set (new_calls initial_state
              (serve all_keys (Transcribe unauthorized [9] ''audio.wav'') initial_state))
   \<and> ElevenLabsTTS ''help'' \<notin>
       set (new_calls
              (serve all_keys (Transcribe unauthorized [9] ''audio.wav'') initial_state)
              (serve all_keys (Speak healthy ''help'')
                 (serve all_keys (Transcribe unauthorized [9] ''audio.wav'') initial_state)))
   \<and> elevenlabs_blocked
       (serve_all all_keys [Speak healthy ''help'', Transcribe healthy [8] ''audio.wav'']
          (serve all_keys (Transcribe unauthorized [9] ''audio.wav'') initial_state))"
proof -
  have keys: "configured (ELEVENLABS_API_KEY all_keys)" "configured (ELEVENLABS_VOICE_ID all_keys)"
    by (simp_all add: all_keys_def)
  have init: "\<not> elevenlabs_blocked initial_state"
    by (simp add: initial_state_def)
  have stt: "blocking_response
      (post_elevenlabs_stt unauthorized ''audio.wav'' [9] (stt_mime_type ''audio.wav''))"
    "\<not> blocking_response
      (post_elevenlabs_stt healthy ''audio.wav'' [9] (stt_mime_type ''audio.wav''))"
    by (simp_all add: blocking_response_def unauthorized_def healthy_def answers_def
        http_error_def ok_json_def is_success_def)
  have tts: "blocking_response (post_elevenlabs_tts unauthorized ''stay calm'')"
    "\<not> blocking_response (post_elevenlabs_tts healthy ''stay calm'')"
    by (simp_all add: blocking_response_def unauthorized_def healthy_def answers_def
        http_error_def ok_audio_def is_success_def)
  note a = blocked_flag_state_machine [of all_keys unauthorized "[9]" "''audio.wav''"
      initial_state "''stay calm''" "Transcribe unauthorized [9] ''audio.wav''" "[]"]
  note b = blocked_flag_state_machine [of all_keys healthy "[9]" "''audio.wav''"
      initial_state "''stay calm''" "Speak healthy ''help''" "[]"]
  note c = blocked_flag_state_machine [of all_keys healthy "[9]" "''audio.wav''"
      "serve all_keys (Transcribe unauthorized [9] ''audio.wav'') initial_state"
      "''stay calm''" "Speak healthy ''help''"
      "[Speak healthy ''help'', Transcribe healthy [8] ''audio.wav'']"]
  have blocked1: "elevenlabs_blocked
      (serve all_keys (Transcribe unauthorized [9] ''audio.wav'') initial_state)"
    using a keys stt by simp
  show ?thesis
    using a b c keys init stt tts blocked1 by (simp add: wav_mime)
qed

subsection \<open>Exceptions\<close>

text \<open>
  C8. The claim is that no provider outcome makes an entry point raise. Both STT
  functions catch \<^verbatim>\<open>httpx.HTTPStatusError\<close> and \<^verbatim>\<open>httpx.RequestError\<close> only, while
  \<open>_edge_tts\<close> catches every \<^verbatim>\<open>Exception\<close>. When ElevenLabs answers 200 with a body
  that is not JSON, \<^verbatim>\<open>resp.json()\<close> raises \<^verbatim>\<open>JSONDecodeError\<close>, which leaves
  \<open>transcribe_audio\<close>; Groq, configured and able to answer, is not tried.
\<close>

theorem non_json_body_raises:
  "transcribe_audio all_keys
     (answers html_body (ok_json (JObj [(''text'', JStr ''from groq'')])) RequestError
        (Failed []))
     [9] ''audio.wav'' initial_state =
     (Inl JSONDecodeError,
      \<lparr>elevenlabs_blocked = False, calls = [ElevenLabsSTT ''audio.wav'' [9] ''audio/wav'']\<rparr>)"
  by (simp add: transcribe_audio_def elevenlabs_stt_unfold wav_mime called_def all_keys_def
      initial_state_def answers_def html_body_def is_success_def)

end
